theory Spec2Isabelle
  imports Complex_Main "HOL-Library.AList" "HOL-Library.Log_Nat"
begin

section \<open>Common ground of the account modules\<close>

text \<open>
  The repository holds the trading account in more than one file. Two modules are
  modelled, operation by operation:
  \<^item> \<^verbatim>\<open>crew/engineering_team/output/verified_outputs/accounts_working.py\<close>, suffix \<open>_w\<close>;
  \<^item> \<^verbatim>\<open>3_crew/engineering_team/output/accounts.py\<close>, suffix \<open>_c\<close>.
  A third variant of the module is written out inside
  \<^verbatim>\<open>crew/engineering_team/output/test_accounts.py\<close>; it is not a module of its own and is
  not modelled.

  Conventions of the embedding:
  \<^item> money is Python \<^verbatim>\<open>float\<close> in the source and an exact rational here (the spec speaks
    of decimal amounts); buying and selling are modelled a second time with the
    rounding of the float operations, for the claim that depends on it; infinities
    and NaN are outside the model;
  \<^item> a quantity is a Python \<^verbatim>\<open>int\<close>, here \<^typ>\<open>int\<close>;
  \<^item> a \<^verbatim>\<open>dict\<close> is an association list in insertion order: \<open>map_of\<close> reads a key,
    \<open>AList.update\<close> overwrites the entry in place or appends a new one at the end,
    \<open>AList.delete\<close> removes the key;
  \<^item> \<^verbatim>\<open>datetime.now()\<close> is an argument \<open>now\<close> of every operation that records;
  \<^item> a method mutates \<^verbatim>\<open>self\<close> statement by statement and may raise in between, so
    every operation returns the outcome together with the state at the moment it
    returned or raised;
  \<^item> an exception is its class and its message; a number formatted into a message is
    left out, the message is then cut before it.
\<close>

datatype exn =
    ValueError string
  | TradingError string
  | InsufficientFundsError string
  | InsufficientSharesError string
  | KeyError string
  | OverflowError string

datatype outcome = Returned | Raised exn

text \<open>\<^verbatim>\<open>str.upper()\<close> on ASCII text: the letters a to z move to A to Z, every other
  character stays.\<close>

definition upper_char :: "char \<Rightarrow> char" where
  "upper_char c =
     (let n = (of_char c :: nat) in if 97 \<le> n \<and> n \<le> 122 then char_of (n - 32) else c)"

definition upper :: "string \<Rightarrow> string" where
  "upper s = map upper_char s"

section \<open>accounts\_working.py\<close>

text \<open>\<^verbatim>\<open>STOCK_PRICES = {"AAPL": 150.00, "TSLA": 850.00, "GOOGL": 2500.00}\<close>\<close>

definition STOCK_PRICES :: "(string \<times> rat) list" where
  "STOCK_PRICES = [(''AAPL'', 150), (''TSLA'', 850), (''GOOGL'', 2500)]"

definition get_share_price_w :: "string \<Rightarrow> exn + rat" where
  "get_share_price_w symbol0 =
     (let symbol = upper symbol0 in
      case map_of STOCK_PRICES symbol of
        None \<Rightarrow> Inl (ValueError (''Symbol '' @ symbol @ '' not found in available stocks.''))
      | Some p \<Rightarrow> Inr p)"

record txn_w =
  tw_timestamp :: nat
  tw_type :: string
  tw_symbol :: string
  tw_quantity :: int
  tw_price_per_share :: rat
  tw_cash_impact :: rat
  tw_balance_after :: rat

record account_w =
  account_holder_name :: string
  cash_balance :: rat
  initial_deposit :: rat
  holdings_w :: "(string \<times> int) list"
  transaction_history :: "txn_w list"

text \<open>\<^verbatim>\<open>Account.__init__(account_holder_name, initial_deposit)\<close>: plain assignments.\<close>

definition Account_w :: "string \<Rightarrow> rat \<Rightarrow> account_w" where
  "Account_w name dep =
     \<lparr>account_holder_name = name, cash_balance = dep, initial_deposit = dep,
      holdings_w = [], transaction_history = []\<rparr>"

definition deposit_w :: "nat \<Rightarrow> rat \<Rightarrow> account_w \<Rightarrow> outcome \<times> account_w" where
  "deposit_w now amount self =
     (if amount \<le> 0 then (Raised (TradingError ''Deposit amount must be positive.''), self)
      else
        let self1 = self\<lparr>cash_balance := cash_balance self + amount\<rparr>;
            self2 = self1\<lparr>transaction_history := transaction_history self1 @
              [\<lparr>tw_timestamp = now, tw_type = ''Deposit'', tw_symbol = ''CASH'',
                tw_quantity = 1, tw_price_per_share = amount, tw_cash_impact = amount,
                tw_balance_after = cash_balance self1\<rparr>]\<rparr>
        in (Returned, self2))"

definition withdraw_w :: "nat \<Rightarrow> rat \<Rightarrow> account_w \<Rightarrow> outcome \<times> account_w" where
  "withdraw_w now amount self =
     (if amount \<le> 0 then (Raised (TradingError ''Withdrawal amount must be positive.''), self)
      else if amount > cash_balance self
        then (Raised (TradingError ''Insufficient funds. Available: $''), self)
      else
        let self1 = self\<lparr>cash_balance := cash_balance self - amount\<rparr>;
            self2 = self1\<lparr>transaction_history := transaction_history self1 @
              [\<lparr>tw_timestamp = now, tw_type = ''Withdrawal'', tw_symbol = ''CASH'',
                tw_quantity = 1, tw_price_per_share = amount, tw_cash_impact = - amount,
                tw_balance_after = cash_balance self1\<rparr>]\<rparr>
        in (Returned, self2))"

text \<open>\<^verbatim>\<open>buy_shares\<close>: the symbol is upper-cased first, then the quantity is checked, then
  the price is looked up, then the cost is compared with the cash.\<close>

definition buy_shares_w :: "nat \<Rightarrow> string \<Rightarrow> int \<Rightarrow> account_w \<Rightarrow> outcome \<times> account_w" where
  "buy_shares_w now symbol0 quantity self =
     (let symbol = upper symbol0 in
      if quantity \<le> 0 then (Raised (TradingError ''Quantity must be positive.''), self)
      else case get_share_price_w symbol of
        Inl e \<Rightarrow> (Raised e, self)
      | Inr price \<Rightarrow>
          let cost = price * of_int quantity in
          if cost > cash_balance self
            then (Raised (TradingError ''Insufficient funds. Need: $''), self)
          else
            let self1 = self\<lparr>cash_balance := cash_balance self - cost\<rparr>;
                self2 = self1\<lparr>holdings_w := AList.update symbol
                  ((case map_of (holdings_w self1) symbol of None \<Rightarrow> 0 | Some n \<Rightarrow> n) + quantity)
                  (holdings_w self1)\<rparr>;
                self3 = self2\<lparr>transaction_history := transaction_history self2 @
                  [\<lparr>tw_timestamp = now, tw_type = ''Buy'', tw_symbol = symbol,
                    tw_quantity = quantity, tw_price_per_share = price,
                    tw_cash_impact = - cost, tw_balance_after = cash_balance self2\<rparr>]\<rparr>
            in (Returned, self3))"

text \<open>\<^verbatim>\<open>sell_shares\<close>: upper-casing, the quantity check, the holdings check, the price
  lookup, then the three mutations and the record. \<^verbatim>\<open>self.holdings[symbol] -= quantity\<close>
  reads the entry, which raises \<^verbatim>\<open>KeyError\<close> on a missing key. The method finds
  \<^verbatim>\<open>get_share_price\<close> through the module's global name at the moment of the call (the
  tests patch that name), so the body is written over any binding of it, and
  \<open>sell_shares_w\<close> is the body with the module's own function.\<close>

definition sell_shares_w_with ::
  "(string \<Rightarrow> exn + rat) \<Rightarrow> nat \<Rightarrow> string \<Rightarrow> int \<Rightarrow> account_w \<Rightarrow> outcome \<times> account_w" where
  "sell_shares_w_with get_share_price now symbol0 quantity self =
     (let symbol = upper symbol0 in
      if quantity \<le> 0 then (Raised (TradingError ''Quantity must be positive.''), self)
      else if (case map_of (holdings_w self) symbol of None \<Rightarrow> True | Some n \<Rightarrow> n < quantity)
        then (Raised (TradingError (''Insufficient shares of '' @ symbol @ ''. Available: '')), self)
      else case get_share_price symbol of
        Inl e \<Rightarrow> (Raised e, self)
      | Inr price \<Rightarrow>
          let proceeds = price * of_int quantity;
              self1 = self\<lparr>cash_balance := cash_balance self + proceeds\<rparr>
          in case map_of (holdings_w self1) symbol of
               None \<Rightarrow> (Raised (KeyError symbol), self1)
             | Some n \<Rightarrow>
                 let self2 = self1\<lparr>holdings_w := AList.update symbol (n - quantity) (holdings_w self1)\<rparr>
                 in case map_of (holdings_w self2) symbol of
                      None \<Rightarrow> (Raised (KeyError symbol), self2)
                    | Some m \<Rightarrow>
                        let self3 = (if m = 0
                               then self2\<lparr>holdings_w := AList.delete symbol (holdings_w self2)\<rparr>
                               else self2);
                            self4 = self3\<lparr>transaction_history := transaction_history self3 @
                              [\<lparr>tw_timestamp = now, tw_type = ''Sell'', tw_symbol = symbol,
                                tw_quantity = quantity, tw_price_per_share = price,
                                tw_cash_impact = proceeds, tw_balance_after = cash_balance self3\<rparr>]\<rparr>
                        in (Returned, self4))"

definition sell_shares_w :: "nat \<Rightarrow> string \<Rightarrow> int \<Rightarrow> account_w \<Rightarrow> outcome \<times> account_w" where
  "sell_shares_w = sell_shares_w_with get_share_price_w"

text \<open>\<^verbatim>\<open>calculate_current_holdings_value\<close>: the loop over \<^verbatim>\<open>holdings.items()\<close> with the
  running total; a failing price lookup leaves the loop and the method. It is written
  over any binding of \<^verbatim>\<open>get_share_price\<close>, like \<open>sell_shares_w_with\<close>.\<close>

fun holdings_value_loop_w ::
  "(string \<Rightarrow> exn + rat) \<Rightarrow> (string \<times> int) list \<Rightarrow> rat \<Rightarrow> exn + rat" where
  "holdings_value_loop_w get_share_price [] total_value = Inr total_value"
| "holdings_value_loop_w get_share_price ((symbol, quantity) # rest) total_value =
     (case get_share_price symbol of
        Inl e \<Rightarrow> Inl e
      | Inr price \<Rightarrow>
          holdings_value_loop_w get_share_price rest (total_value + price * of_int quantity))"

definition calculate_current_holdings_value_w_with ::
  "(string \<Rightarrow> exn + rat) \<Rightarrow> account_w \<Rightarrow> exn + rat" where
  "calculate_current_holdings_value_w_with get_share_price self =
     holdings_value_loop_w get_share_price (holdings_w self) 0"

definition calculate_current_holdings_value_w :: "account_w \<Rightarrow> exn + rat" where
  "calculate_current_holdings_value_w =
     calculate_current_holdings_value_w_with get_share_price_w"

definition calculate_portfolio_value_w :: "account_w \<Rightarrow> exn + rat" where
  "calculate_portfolio_value_w self =
     (case calculate_current_holdings_value_w self of
        Inl e \<Rightarrow> Inl e
      | Inr v \<Rightarrow> Inr (cash_balance self + v))"

definition calculate_profit_loss_w :: "account_w \<Rightarrow> exn + rat" where
  "calculate_profit_loss_w self =
     (case calculate_portfolio_value_w self of
        Inl e \<Rightarrow> Inl e
      | Inr v \<Rightarrow> Inr (v - initial_deposit self))"

section \<open>3\_crew accounts.py\<close>

text \<open>\<^verbatim>\<open>get_share_price\<close> of this module returns a price for every string: three symbols
  have their own, every other one gets the default.\<close>

definition get_share_price_c :: "string \<Rightarrow> rat" where
  "get_share_price_c symbol =
     (if symbol = ''AAPL'' then 341 / 2
      else if symbol = ''TSLA'' then 750
      else if symbol = ''GOOGL'' then 10001 / 4
      else 100)"

record txn_c =
  tc_timestamp :: nat
  tc_type :: string
  tc_symbol :: "string option"
  tc_quantity :: "int option"
  tc_price :: "rat option"
  tc_amount :: rat

record account_c =
  account_id :: string
  balance :: rat
  holdings_c :: "(string \<times> int) list"
  transactions :: "txn_c list"
  initial_deposit_total :: rat

definition Account_c :: "string \<Rightarrow> account_c" where
  "Account_c ident =
     \<lparr>account_id = ident, balance = 0, holdings_c = [], transactions = [],
      initial_deposit_total = 0\<rparr>"

definition record_transaction ::
  "nat \<Rightarrow> string \<Rightarrow> rat \<Rightarrow> string option \<Rightarrow> int option \<Rightarrow> rat option \<Rightarrow> account_c \<Rightarrow> account_c" where
  "record_transaction now ty amount symbol quantity price self =
     self\<lparr>transactions := transactions self @
       [\<lparr>tc_timestamp = now, tc_type = ty, tc_symbol = symbol, tc_quantity = quantity,
         tc_price = price, tc_amount = amount\<rparr>]\<rparr>"

definition deposit_c :: "nat \<Rightarrow> rat \<Rightarrow> account_c \<Rightarrow> outcome \<times> account_c" where
  "deposit_c now amount self =
     (if amount \<le> 0 then (Raised (ValueError ''Deposit amount must be positive.''), self)
      else
        let self1 = self\<lparr>balance := balance self + amount\<rparr>;
            self2 = self1\<lparr>initial_deposit_total := initial_deposit_total self1 + amount\<rparr>
        in (Returned, record_transaction now ''DEPOSIT'' amount None None None self2))"

definition withdraw_c :: "nat \<Rightarrow> rat \<Rightarrow> account_c \<Rightarrow> outcome \<times> account_c" where
  "withdraw_c now amount self =
     (if amount \<le> 0 then (Raised (ValueError ''Withdrawal amount must be positive.''), self)
      else if balance self < amount
        then (Raised (InsufficientFundsError ''Cannot withdraw ''), self)
      else
        let self1 = self\<lparr>balance := balance self - amount\<rparr>
        in (Returned, record_transaction now ''WITHDRAW'' (- amount) None None None self1))"

definition buy_shares_c :: "nat \<Rightarrow> string \<Rightarrow> int \<Rightarrow> account_c \<Rightarrow> outcome \<times> account_c" where
  "buy_shares_c now symbol quantity self =
     (if quantity \<le> 0 then (Raised (ValueError ''Quantity must be positive.''), self)
      else
        let price = get_share_price_c symbol;
            cost = price * of_int quantity
        in if balance self < cost
          then (Raised (InsufficientFundsError ''Cannot afford ''), self)
          else
            let self1 = self\<lparr>balance := balance self - cost\<rparr>;
                self2 = self1\<lparr>holdings_c := AList.update symbol
                  ((case map_of (holdings_c self1) symbol of None \<Rightarrow> 0 | Some n \<Rightarrow> n) + quantity)
                  (holdings_c self1)\<rparr>
            in (Returned,
                record_transaction now ''BUY'' (- cost) (Some symbol) (Some quantity) (Some price) self2))"

text \<open>\<^verbatim>\<open>sell_shares\<close>, over any binding of the global name \<^verbatim>\<open>get_share_price\<close> as above.\<close>

definition sell_shares_c_with ::
  "(string \<Rightarrow> rat) \<Rightarrow> nat \<Rightarrow> string \<Rightarrow> int \<Rightarrow> account_c \<Rightarrow> outcome \<times> account_c" where
  "sell_shares_c_with get_share_price now symbol quantity self =
     (if quantity \<le> 0 then (Raised (ValueError ''Quantity must be positive.''), self)
      else
        let current_holding = (case map_of (holdings_c self) symbol of None \<Rightarrow> 0 | Some n \<Rightarrow> n)
        in if current_holding < quantity
          then (Raised (InsufficientSharesError ''Cannot sell ''), self)
          else
            let price = get_share_price symbol;
                proceeds = price * of_int quantity;
                self1 = self\<lparr>balance := balance self + proceeds\<rparr>
            in case map_of (holdings_c self1) symbol of
                 None \<Rightarrow> (Raised (KeyError symbol), self1)
               | Some n \<Rightarrow>
                   let self2 = self1\<lparr>holdings_c := AList.update symbol (n - quantity) (holdings_c self1)\<rparr>
                   in case map_of (holdings_c self2) symbol of
                        None \<Rightarrow> (Raised (KeyError symbol), self2)
                      | Some m \<Rightarrow>
                          let self3 = (if m = 0
                                 then self2\<lparr>holdings_c := AList.delete symbol (holdings_c self2)\<rparr>
                                 else self2)
                          in (Returned,
                              record_transaction now ''SELL'' proceeds (Some symbol) (Some quantity)
                                (Some price) self3))"

definition sell_shares_c :: "nat \<Rightarrow> string \<Rightarrow> int \<Rightarrow> account_c \<Rightarrow> outcome \<times> account_c" where
  "sell_shares_c = sell_shares_c_with get_share_price_c"


record portfolio_c =
  cash_value :: rat
  stock_value :: rat
  total_value :: rat


section \<open>Callers: one operation, a sequence of operations\<close>

text \<open>The four mutating operations as data, and a caller that runs them one after
  the other on the same account, going on after an exception as the user interface
  does (it catches the exception and shows its message).\<close>

datatype operation =
    Deposit rat
  | Withdraw rat
  | Buy string int
  | Sell string int

fun step_w :: "nat \<Rightarrow> operation \<Rightarrow> account_w \<Rightarrow> outcome \<times> account_w" where
  "step_w now (Deposit amount) self = deposit_w now amount self"
| "step_w now (Withdraw amount) self = withdraw_w now amount self"
| "step_w now (Buy symbol quantity) self = buy_shares_w now symbol quantity self"
| "step_w now (Sell symbol quantity) self = sell_shares_w now symbol quantity self"

fun step_c :: "nat \<Rightarrow> operation \<Rightarrow> account_c \<Rightarrow> outcome \<times> account_c" where
  "step_c now (Deposit amount) self = deposit_c now amount self"
| "step_c now (Withdraw amount) self = withdraw_c now amount self"
| "step_c now (Buy symbol quantity) self = buy_shares_c now symbol quantity self"
| "step_c now (Sell symbol quantity) self = sell_shares_c now symbol quantity self"



text \<open>The quantity a dictionary of holdings gives for a symbol,
  \<^verbatim>\<open>holdings.get(symbol, 0)\<close>.\<close>

definition held :: "(string \<times> int) list \<Rightarrow> string \<Rightarrow> int" where
  "held h symbol = (case map_of h symbol of None \<Rightarrow> 0 | Some n \<Rightarrow> n)"

text \<open>The invariant of the data model: every quantity in the holdings is positive and
  the cash is not negative.\<close>

definition holdings_positive :: "(string \<times> int) list \<Rightarrow> bool" where
  "holdings_positive h = list_all (\<lambda>(symbol, quantity). 0 < quantity) h"

definition invariant_w :: "account_w \<Rightarrow> bool" where
  "invariant_w self = (holdings_positive (holdings_w self) \<and> 0 \<le> cash_balance self)"



section \<open>Floating-point cash arithmetic\<close>

text \<open>
  Both modules keep money in Python \<^verbatim>\<open>float\<close>, an IEEE 754 binary64 number: a result of
  \<open>+\<close>, \<open>-\<close> or \<open>*\<close> is the exact result rounded to the nearest number with a 53-bit
  significand, a tie going to the even significand; below \<open>2\<^sup>-\<^sup>1\<^sup>0\<^sup>2\<^sup>2\<close> the spacing stays
  \<open>2\<^sup>-\<^sup>1\<^sup>0\<^sup>7\<^sup>4\<close>. A finite float is a rational number, so the rounding is a function
  on rationals. A result of magnitude \<open>2\<^sup>1\<^sup>0\<^sup>2\<^sup>4\<close> or more is infinite in the source;
  infinities and NaN are not values of this model, which is used on amounts below
  \<open>2\<^sup>1\<^sup>0\<^sup>2\<^sup>3\<close>. The operations of the sections above compute with the exact results;
  the operations of this section round as the source does, for the property where
  rounding decides.
\<close>

definition floor_log2 :: "rat \<Rightarrow> int" where
  "floor_log2 x =
     (if 1 \<le> x then bitlen \<lfloor>x\<rfloor> - 1 else - bitlen (\<lceil>1 / x\<rceil> - 1))"

definition pow2 :: "int \<Rightarrow> rat" where
  "pow2 k = (if 0 \<le> k then 2 ^ nat k else 1 / 2 ^ nat (- k))"

definition round_half_even :: "rat \<Rightarrow> int" where
  "round_half_even x =
     (let f = \<lfloor>x\<rfloor>; r = x - of_int f
      in if r < 1 / 2 then f else if 1 / 2 < r then f + 1 else if even f then f else f + 1)"

definition fl :: "rat \<Rightarrow> rat" where
  "fl x =
     (if x = 0 then 0
      else
        let a = \<bar>x\<bar>;
            e = max (floor_log2 a) (- 1022);
            u = pow2 (e - 52)
        in sgn x * of_int (round_half_even (a / u)) * u)"

definition float_add :: "rat \<Rightarrow> rat \<Rightarrow> rat" where
  "float_add x y = fl (x + y)"

definition float_sub :: "rat \<Rightarrow> rat \<Rightarrow> rat" where
  "float_sub x y = fl (x - y)"

definition float_mul :: "rat \<Rightarrow> rat \<Rightarrow> rat" where
  "float_mul x y = fl (x * y)"

text \<open>\<^verbatim>\<open>price * quantity\<close> multiplies a float by an \<^verbatim>\<open>int\<close>: Python first converts the
  integer to the nearest float and raises \<^verbatim>\<open>OverflowError\<close> when that is out of range,
  which is when its binary exponent is 1024 or more.\<close>

definition float_of_int :: "int \<Rightarrow> exn + rat" where
  "float_of_int n =
     (let r = fl (of_int n) in
      if 1024 \<le> floor_log2 \<bar>r\<bar>
        then Inl (OverflowError ''int too large to convert to float'')
      else Inr r)"

text \<open>\<^verbatim>\<open>buy_shares\<close> and \<^verbatim>\<open>sell_shares\<close> of accounts\_working.py, statement by statement as
  above, with the three arithmetic operations on the cash rounded.\<close>

definition buy_shares_w_float ::
  "nat \<Rightarrow> string \<Rightarrow> int \<Rightarrow> account_w \<Rightarrow> outcome \<times> account_w" where
  "buy_shares_w_float now symbol0 quantity self =
     (let symbol = upper symbol0 in
      if quantity \<le> 0 then (Raised (TradingError ''Quantity must be positive.''), self)
      else case get_share_price_w symbol of
        Inl e \<Rightarrow> (Raised e, self)
      | Inr price \<Rightarrow>
          (case float_of_int quantity of
             Inl e \<Rightarrow> (Raised e, self)
           | Inr qf \<Rightarrow>
               let cost = float_mul price qf in
               if cost > cash_balance self
                 then (Raised (TradingError ''Insufficient funds. Need: $''), self)
               else
                 let self1 = self\<lparr>cash_balance := float_sub (cash_balance self) cost\<rparr>;
                     self2 = self1\<lparr>holdings_w := AList.update symbol
                       ((case map_of (holdings_w self1) symbol of None \<Rightarrow> 0 | Some n \<Rightarrow> n)
                         + quantity)
                       (holdings_w self1)\<rparr>;
                     self3 = self2\<lparr>transaction_history := transaction_history self2 @
                       [\<lparr>tw_timestamp = now, tw_type = ''Buy'', tw_symbol = symbol,
                         tw_quantity = quantity, tw_price_per_share = price,
                         tw_cash_impact = - cost, tw_balance_after = cash_balance self2\<rparr>]\<rparr>
                 in (Returned, self3)))"

definition sell_shares_w_float ::
  "nat \<Rightarrow> string \<Rightarrow> int \<Rightarrow> account_w \<Rightarrow> outcome \<times> account_w" where
  "sell_shares_w_float now symbol0 quantity self =
     (let symbol = upper symbol0 in
      if quantity \<le> 0 then (Raised (TradingError ''Quantity must be positive.''), self)
      else if (case map_of (holdings_w self) symbol of None \<Rightarrow> True | Some n \<Rightarrow> n < quantity)
        then (Raised (TradingError (''Insufficient shares of '' @ symbol @ ''. Available: '')), self)
      else case get_share_price_w symbol of
        Inl e \<Rightarrow> (Raised e, self)
      | Inr price \<Rightarrow>
          (case float_of_int quantity of
             Inl e \<Rightarrow> (Raised e, self)
           | Inr qf \<Rightarrow>
               let proceeds = float_mul price qf;
                   self1 = self\<lparr>cash_balance := float_add (cash_balance self) proceeds\<rparr>
               in case map_of (holdings_w self1) symbol of
                    None \<Rightarrow> (Raised (KeyError symbol), self1)
                  | Some n \<Rightarrow>
                      let self2 = self1\<lparr>holdings_w :=
                            AList.update symbol (n - quantity) (holdings_w self1)\<rparr>
                      in case map_of (holdings_w self2) symbol of
                           None \<Rightarrow> (Raised (KeyError symbol), self2)
                         | Some m \<Rightarrow>
                             let self3 = (if m = 0
                                    then self2\<lparr>holdings_w := AList.delete symbol (holdings_w self2)\<rparr>
                                    else self2);
                                 self4 = self3\<lparr>transaction_history := transaction_history self3 @
                                   [\<lparr>tw_timestamp = now, tw_type = ''Sell'', tw_symbol = symbol,
                                     tw_quantity = quantity, tw_price_per_share = price,
                                     tw_cash_impact = proceeds,
                                     tw_balance_after = cash_balance self3\<rparr>]\<rparr>
                             in (Returned, self4)))"

text \<open>The same two methods of 3\_crew accounts.py.\<close>

definition buy_shares_c_float ::
  "nat \<Rightarrow> string \<Rightarrow> int \<Rightarrow> account_c \<Rightarrow> outcome \<times> account_c" where
  "buy_shares_c_float now symbol quantity self =
     (if quantity \<le> 0 then (Raised (ValueError ''Quantity must be positive.''), self)
      else
        let price = get_share_price_c symbol
        in case float_of_int quantity of
          Inl e \<Rightarrow> (Raised e, self)
        | Inr qf \<Rightarrow>
            let cost = float_mul price qf
            in if balance self < cost
              then (Raised (InsufficientFundsError ''Cannot afford ''), self)
              else
                let self1 = self\<lparr>balance := float_sub (balance self) cost\<rparr>;
                    self2 = self1\<lparr>holdings_c := AList.update symbol
                      ((case map_of (holdings_c self1) symbol of None \<Rightarrow> 0 | Some n \<Rightarrow> n)
                        + quantity)
                      (holdings_c self1)\<rparr>
                in (Returned,
                    record_transaction now ''BUY'' (- cost) (Some symbol) (Some quantity)
                      (Some price) self2))"

definition sell_shares_c_float ::
  "nat \<Rightarrow> string \<Rightarrow> int \<Rightarrow> account_c \<Rightarrow> outcome \<times> account_c" where
  "sell_shares_c_float now symbol quantity self =
     (if quantity \<le> 0 then (Raised (ValueError ''Quantity must be positive.''), self)
      else
        let current_holding = (case map_of (holdings_c self) symbol of None \<Rightarrow> 0 | Some n \<Rightarrow> n)
        in if current_holding < quantity
          then (Raised (InsufficientSharesError ''Cannot sell ''), self)
          else
            let price = get_share_price_c symbol
            in case float_of_int quantity of
              Inl e \<Rightarrow> (Raised e, self)
            | Inr qf \<Rightarrow>
                let proceeds = float_mul price qf;
                    self1 = self\<lparr>balance := float_add (balance self) proceeds\<rparr>
                in case map_of (holdings_c self1) symbol of
                     None \<Rightarrow> (Raised (KeyError symbol), self1)
                   | Some n \<Rightarrow>
                       let self2 = self1\<lparr>holdings_c :=
                             AList.update symbol (n - quantity) (holdings_c self1)\<rparr>
                       in case map_of (holdings_c self2) symbol of
                            None \<Rightarrow> (Raised (KeyError symbol), self2)
                          | Some m \<Rightarrow>
                              let self3 = (if m = 0
                                     then self2\<lparr>holdings_c := AList.delete symbol (holdings_c self2)\<rparr>
                                     else self2)
                              in (Returned,
                                  record_transaction now ''SELL'' proceeds (Some symbol)
                                    (Some quantity) (Some price) self3))"

section \<open>Auxiliary facts\<close>

lemma upper_char_idem: "upper_char (upper_char c) = upper_char c"
  by (auto simp: upper_char_def Let_def)

lemma upper_idem: "upper (upper s) = upper s"
  by (simp add: upper_def upper_char_idem)

lemma step_w_atomic:
  "(fst (step_w now x s) = Returned \<longrightarrow>
      (\<exists>r. transaction_history (snd (step_w now x s)) = transaction_history s @ [r]))
   \<and> (fst (step_w now x s) \<noteq> Returned \<longrightarrow> snd (step_w now x s) = s)"
  by (cases x)
    (auto simp: deposit_w_def withdraw_w_def buy_shares_w_def sell_shares_w_def
      sell_shares_w_with_def Let_def AList.update_conv'
      split: sum.splits option.splits if_splits)

lemma step_c_atomic:
  "(fst (step_c now x s) = Returned \<longrightarrow>
      (\<exists>r. transactions (snd (step_c now x s)) = transactions s @ [r]))
   \<and> (fst (step_c now x s) \<noteq> Returned \<longrightarrow> snd (step_c now x s) = s)"
  by (cases x)
    (auto simp: deposit_c_def withdraw_c_def buy_shares_c_def sell_shares_c_def
      sell_shares_c_with_def record_transaction_def Let_def AList.update_conv'
      split: sum.splits option.splits if_splits)

lemma get_share_price_w_upper: "get_share_price_w (upper s) = get_share_price_w s"
  by (simp add: get_share_price_w_def upper_idem)





subsection \<open>Dictionaries of holdings\<close>

lemma delete_absent: "map_of h k = None \<Longrightarrow> AList.delete k h = h"
  by (simp add: map_of_eq_None_iff)




lemma holdings_positive_lookup:
  "holdings_positive h \<Longrightarrow> map_of h k = Some n \<Longrightarrow> 0 < n"
  by (induction h) (auto simp: holdings_positive_def split: if_splits)


lemma holdings_positive_held: "holdings_positive h \<Longrightarrow> 0 \<le> held h k"
  using holdings_positive_lookup [of h k] by (auto simp: held_def split: option.splits)




subsection \<open>What one operation and a sequence of operations preserve\<close>











subsection \<open>The valuation loops\<close>




subsection \<open>The rounding, at known values\<close>

text \<open>The rounding gives the floats that Python prints for \<^verbatim>\<open>0.1\<close> and \<^verbatim>\<open>0.1 + 0.2\<close>, and
  sends the two integers next to \<open>2\<^sup>5\<^sup>3\<close> that lie halfway between floats to the even
  neighbour.\<close>

lemma fl_known_values:
  "fl (1 / 10) = 3602879701896397 / 36028797018963968"
  "fl (fl (1 / 10) + fl (2 / 10)) = 1351079888211149 / 4503599627370496"
  "fl 9007199254740993 = 9007199254740992"
  "fl 9007199254740995 = 9007199254740996"
  "fl (- (1 / 10)) = - (3602879701896397 / 36028797018963968)"
  by code_simp+

section \<open>The claims\<close>

text \<open>
  Claim C1. For each of the four mutating operations, in both modules and on every
  account state: a call that returns has appended exactly one record to the
  transactions (the old sequence is a prefix, one record follows it); a call that
  raises leaves the whole account as it was, so the cash, the holdings, the
  transactions and the deposit baseline are unchanged and nothing is appended.
\<close>

theorem mutating_call_atomic:
  "(fst (step_w now x sw) = Returned \<longrightarrow>
      (\<exists>r. transaction_history (snd (step_w now x sw)) = transaction_history sw @ [r]))
   \<and> (fst (step_w now x sw) \<noteq> Returned \<longrightarrow> snd (step_w now x sw) = sw)
   \<and> (fst (step_c now x sc) = Returned \<longrightarrow>
      (\<exists>r. transactions (snd (step_c now x sc)) = transactions sc @ [r]))
   \<and> (fst (step_c now x sc) \<noteq> Returned \<longrightarrow> snd (step_c now x sc) = sc)"
  using step_w_atomic [of now x sw] step_c_atomic [of now x sc] by blast

theorem mutating_call_atomic_witness:
  "fst (step_w 1 (Buy ''aapl'' 2) (Account_w ''a'' 1000)) = Returned
   \<and> (\<exists>r. transaction_history (snd (step_w 1 (Buy ''aapl'' 2) (Account_w ''a'' 1000)))
          = transaction_history (Account_w ''a'' 1000) @ [r])
   \<and> fst (step_c 1 (Buy ''aapl'' 2) (Account_c ''a'')) \<noteq> Returned
   \<and> snd (step_c 1 (Buy ''aapl'' 2) (Account_c ''a'')) = Account_c ''a''
   \<and> fst (step_w 2 (Withdraw 7) (Account_w ''a'' 5)) \<noteq> Returned
   \<and> snd (step_w 2 (Withdraw 7) (Account_w ''a'' 5)) = Account_w ''a'' 5
   \<and> fst (step_c 2 (Withdraw 7) (snd (deposit_c 1 9 (Account_c ''a'')))) = Returned
   \<and> (\<exists>r. transactions (snd (step_c 2 (Withdraw 7) (snd (deposit_c 1 9 (Account_c ''a'')))))
          = transactions (snd (deposit_c 1 9 (Account_c ''a''))) @ [r])"
proof -
  have a: "fst (step_w 1 (Buy ''aapl'' 2) (Account_w ''a'' 1000)) = Returned"
    by code_simp
  have b: "fst (step_c 1 (Buy ''aapl'' 2) (Account_c ''a'')) \<noteq> Returned"
    by code_simp
  have c: "fst (step_w 2 (Withdraw 7) (Account_w ''a'' 5)) \<noteq> Returned"
    by code_simp
  have d: "fst (step_c 2 (Withdraw 7) (snd (deposit_c 1 9 (Account_c ''a'')))) = Returned"
    by code_simp
  from a b c d
    mutating_call_atomic [of 1 "Buy ''aapl'' 2" "Account_w ''a'' 1000" "Account_c ''a''"]
    mutating_call_atomic [of 2 "Withdraw 7" "Account_w ''a'' 5"
      "snd (deposit_c 1 9 (Account_c ''a''))"]
  show ?thesis by blast
qed













text \<open>
  Claim C6. In sell, for every state and every quantity \<open>q > 0\<close>, the comparison with
  the held quantity comes before the price lookup. When \<open>q\<close> exceeds the held
  quantity the call raises the insufficient-shares error and leaves the account
  unchanged whatever \<^verbatim>\<open>get_share_price\<close> is bound to, so the oracle has no part in it.
  In accounts\_working.py the oracle's error for an unpriced symbol comes out of sell
  exactly when the quantity check has passed; 3\_crew accounts.py has no such error
  at all.
\<close>

theorem sell_checks_shares_before_price:
  "0 < q \<Longrightarrow>
     (held (holdings_w sw) (upper s) < q \<longrightarrow>
        sell_shares_w_with g now s q sw =
          (Raised (TradingError (''Insufficient shares of '' @ upper s @ ''. Available: '')), sw))
   \<and> (held (holdings_c sc) s < q \<longrightarrow>
        sell_shares_c_with g' now s q sc = (Raised (InsufficientSharesError ''Cannot sell ''), sc))
   \<and> (q \<le> held (holdings_w sw) (upper s) \<and> get_share_price_w s = Inl e \<longrightarrow>
        sell_shares_w now s q sw = (Raised e, sw))
   \<and> (fst (sell_shares_w now s q sw) = Raised (ValueError m) \<longrightarrow>
        q \<le> held (holdings_w sw) (upper s) \<and> get_share_price_w s = Inl (ValueError m))
   \<and> fst (sell_shares_c now s q sc) \<noteq> Raised (ValueError m)"
proof -
  assume q: "0 < q"
  have 1: "held (holdings_w sw) (upper s) < q \<longrightarrow>
        sell_shares_w_with g now s q sw =
          (Raised (TradingError (''Insufficient shares of '' @ upper s @ ''. Available: '')), sw)"
    using q by (auto simp: sell_shares_w_with_def held_def Let_def split: option.splits)
  have 2: "held (holdings_c sc) s < q \<longrightarrow>
        sell_shares_c_with g' now s q sc = (Raised (InsufficientSharesError ''Cannot sell ''), sc)"
    using q by (auto simp: sell_shares_c_with_def held_def Let_def split: option.splits)
  have 3: "q \<le> held (holdings_w sw) (upper s) \<and> get_share_price_w s = Inl e \<longrightarrow>
        sell_shares_w now s q sw = (Raised e, sw)"
    using q by (auto simp: sell_shares_w_def sell_shares_w_with_def held_def Let_def
        get_share_price_w_upper split: option.splits)
  have 4: "fst (sell_shares_w now s q sw) = Raised (ValueError m) \<longrightarrow>
        q \<le> held (holdings_w sw) (upper s) \<and> get_share_price_w s = Inl (ValueError m)"
    by (auto simp: sell_shares_w_def sell_shares_w_with_def held_def Let_def
        get_share_price_w_upper AList.update_conv' split: option.splits if_splits sum.splits)
  have 5: "fst (sell_shares_c now s q sc) \<noteq> Raised (ValueError m)"
    using q by (auto simp: sell_shares_c_def sell_shares_c_with_def Let_def
        record_transaction_def AList.update_conv' split: option.splits if_splits)
  from 1 2 3 4 5 show ?thesis by blast
qed

theorem sell_checks_shares_before_price_witness:
  "(0::int) < 2
   \<and> held (holdings_w ((Account_w ''a'' 0)\<lparr>holdings_w := [(''DUD'', 1)]\<rparr>)) (upper ''dud'') < 2
   \<and> sell_shares_w_with get_share_price_w 1 ''dud'' 2
         ((Account_w ''a'' 0)\<lparr>holdings_w := [(''DUD'', 1)]\<rparr>)
       = (Raised (TradingError (''Insufficient shares of '' @ upper ''dud'' @ ''. Available: '')),
          (Account_w ''a'' 0)\<lparr>holdings_w := [(''DUD'', 1)]\<rparr>)
   \<and> held (holdings_c ((Account_c ''a'')\<lparr>holdings_c := [(''DUD'', 1)]\<rparr>)) ''dud'' < 2
   \<and> sell_shares_c_with get_share_price_c 1 ''dud'' 2
         ((Account_c ''a'')\<lparr>holdings_c := [(''DUD'', 1)]\<rparr>)
       = (Raised (InsufficientSharesError ''Cannot sell ''),
          (Account_c ''a'')\<lparr>holdings_c := [(''DUD'', 1)]\<rparr>)
   \<and> 2 \<le> held (holdings_w ((Account_w ''a'' 0)\<lparr>holdings_w := [(''DUD'', 5)]\<rparr>)) (upper ''dud'')
   \<and> get_share_price_w ''dud'' = Inl (ValueError ''Symbol DUD not found in available stocks.'')
   \<and> sell_shares_w 1 ''dud'' 2 ((Account_w ''a'' 0)\<lparr>holdings_w := [(''DUD'', 5)]\<rparr>)
       = (Raised (ValueError ''Symbol DUD not found in available stocks.''),
          (Account_w ''a'' 0)\<lparr>holdings_w := [(''DUD'', 5)]\<rparr>)"
proof -
  have q: "(0::int) < 2"
    by simp
  have a: "held (holdings_w ((Account_w ''a'' 0)\<lparr>holdings_w := [(''DUD'', 1)]\<rparr>)) (upper ''dud'') < 2"
    by code_simp
  have b: "held (holdings_c ((Account_c ''a'')\<lparr>holdings_c := [(''DUD'', 1)]\<rparr>)) ''dud'' < 2"
    by code_simp
  have c: "2 \<le> held (holdings_w ((Account_w ''a'' 0)\<lparr>holdings_w := [(''DUD'', 5)]\<rparr>)) (upper ''dud'')"
    by code_simp
  have d: "get_share_price_w ''dud'' = Inl (ValueError ''Symbol DUD not found in available stocks.'')"
    by code_simp
  note t1 = sell_checks_shares_before_price [OF q, where s = "''dud''" and now = 1
      and g = get_share_price_w and g' = get_share_price_c
      and sw = "(Account_w ''a'' 0)\<lparr>holdings_w := [(''DUD'', 1)]\<rparr>"
      and sc = "(Account_c ''a'')\<lparr>holdings_c := [(''DUD'', 1)]\<rparr>"]
  note t2 = sell_checks_shares_before_price [OF q, where s = "''dud''" and now = 1
      and e = "ValueError ''Symbol DUD not found in available stocks.''"
      and sw = "(Account_w ''a'' 0)\<lparr>holdings_w := [(''DUD'', 5)]\<rparr>"]
  from t1 a have r1: "sell_shares_w_with get_share_price_w 1 ''dud'' 2
         ((Account_w ''a'' 0)\<lparr>holdings_w := [(''DUD'', 1)]\<rparr>)
       = (Raised (TradingError (''Insufficient shares of '' @ upper ''dud'' @ ''. Available: '')),
          (Account_w ''a'' 0)\<lparr>holdings_w := [(''DUD'', 1)]\<rparr>)"
    by blast
  from t1 b have r2: "sell_shares_c_with get_share_price_c 1 ''dud'' 2
         ((Account_c ''a'')\<lparr>holdings_c := [(''DUD'', 1)]\<rparr>)
       = (Raised (InsufficientSharesError ''Cannot sell ''),
          (Account_c ''a'')\<lparr>holdings_c := [(''DUD'', 1)]\<rparr>)"
    by blast
  from t2 c d have r3: "sell_shares_w 1 ''dud'' 2 ((Account_w ''a'' 0)\<lparr>holdings_w := [(''DUD'', 5)]\<rparr>)
       = (Raised (ValueError ''Symbol DUD not found in available stocks.''),
          (Account_w ''a'' 0)\<lparr>holdings_w := [(''DUD'', 5)]\<rparr>)"
    by blast
  from q a b c d r1 r2 r3 show ?thesis
    by blast
qed

text \<open>
  Claim C7, amended. In accounts\_working.py, for every account state, every quantity
  and every symbol string \<open>s\<close>, buy and sell with \<open>s\<close> are buy and sell with the
  upper-cased form of \<open>s\<close>: same outcome, same resulting account. 3\_crew accounts.py
  does not normalise the case: it uses the string as it is given, so a buy that
  returns adds the quantity to the entry of exactly that string and a sell that
  returns leaves every other entry as it was.
\<close>

theorem symbol_case:
  "buy_shares_w now s q sw = buy_shares_w now (upper s) q sw
   \<and> sell_shares_w now s q sw = sell_shares_w now (upper s) q sw
   \<and> (fst (buy_shares_c now s q sc) = Returned \<longrightarrow>
        map_of (holdings_c (snd (buy_shares_c now s q sc)))
          = (map_of (holdings_c sc))(s \<mapsto> held (holdings_c sc) s + q))
   \<and> (fst (sell_shares_c now s q sc) = Returned \<and> k \<noteq> s \<longrightarrow>
        map_of (holdings_c (snd (sell_shares_c now s q sc))) k = map_of (holdings_c sc) k)"
proof -
  have 1: "buy_shares_w now s q sw = buy_shares_w now (upper s) q sw"
    by (simp add: buy_shares_w_def upper_idem)
  have 2: "sell_shares_w now s q sw = sell_shares_w now (upper s) q sw"
    by (simp add: sell_shares_w_def sell_shares_w_with_def upper_idem)
  have 3: "fst (buy_shares_c now s q sc) = Returned \<longrightarrow>
        map_of (holdings_c (snd (buy_shares_c now s q sc)))
          = (map_of (holdings_c sc))(s \<mapsto> held (holdings_c sc) s + q)"
    by (auto simp: buy_shares_c_def Let_def held_def record_transaction_def AList.update_conv'
        split: if_splits)
  have 4: "fst (sell_shares_c now s q sc) = Returned \<and> k \<noteq> s \<longrightarrow>
        map_of (holdings_c (snd (sell_shares_c now s q sc))) k = map_of (holdings_c sc) k"
    by (auto simp: sell_shares_c_def sell_shares_c_with_def Let_def record_transaction_def
        AList.update_conv' AList.delete_conv' split: if_splits option.splits)
  from 1 2 3 4 show ?thesis by blast
qed

theorem symbol_case_witness:
  "fst (buy_shares_c 2 ''aapl'' 1 (snd (deposit_c 1 1000 (Account_c ''a'')))) = Returned
   \<and> map_of (holdings_c (snd (buy_shares_c 2 ''aapl'' 1 (snd (deposit_c 1 1000 (Account_c ''a''))))))
       = (map_of (holdings_c (snd (deposit_c 1 1000 (Account_c ''a'')))))
           (''aapl'' \<mapsto> held (holdings_c (snd (deposit_c 1 1000 (Account_c ''a'')))) ''aapl'' + 1)
   \<and> fst (sell_shares_c 3 ''aapl'' 1
        ((Account_c ''a'')\<lparr>holdings_c := [(''AAPL'', 4), (''aapl'', 1)]\<rparr>)) = Returned
   \<and> ''AAPL'' \<noteq> ''aapl''
   \<and> map_of (holdings_c (snd (sell_shares_c 3 ''aapl'' 1
        ((Account_c ''a'')\<lparr>holdings_c := [(''AAPL'', 4), (''aapl'', 1)]\<rparr>)))) ''AAPL''
       = map_of (holdings_c ((Account_c ''a'')\<lparr>holdings_c := [(''AAPL'', 4), (''aapl'', 1)]\<rparr>))
           ''AAPL''"
proof -
  have a: "fst (buy_shares_c 2 ''aapl'' 1 (snd (deposit_c 1 1000 (Account_c ''a'')))) = Returned"
    by code_simp
  have b: "fst (sell_shares_c 3 ''aapl'' 1
        ((Account_c ''a'')\<lparr>holdings_c := [(''AAPL'', 4), (''aapl'', 1)]\<rparr>)) = Returned"
    by code_simp
  have c: "''AAPL'' \<noteq> ''aapl''"
    by simp
  from a b c
    symbol_case [where now = 2 and s = "''aapl''" and q = 1
      and sc = "snd (deposit_c 1 1000 (Account_c ''a''))"]
    symbol_case [where now = 3 and s = "''aapl''" and q = 1 and k = "''AAPL''"
      and sc = "(Account_c ''a'')\<lparr>holdings_c := [(''AAPL'', 4), (''aapl'', 1)]\<rparr>"]
  show ?thesis by blast
qed

theorem symbol_case_counterexample:
  "upper ''aapl'' = ''AAPL''
   \<and> holdings_c (snd (buy_shares_c 2 ''aapl'' 1 (snd (deposit_c 1 1000 (Account_c ''a'')))))
       = [(''aapl'', 1)]
   \<and> holdings_c (snd (buy_shares_c 2 ''AAPL'' 1 (snd (deposit_c 1 1000 (Account_c ''a'')))))
       = [(''AAPL'', 1)]
   \<and> balance (snd (buy_shares_c 2 ''aapl'' 1 (snd (deposit_c 1 1000 (Account_c ''a''))))) = 900
   \<and> balance (snd (buy_shares_c 2 ''AAPL'' 1 (snd (deposit_c 1 1000 (Account_c ''a'')))))
       = 1659 / 2"
  by code_simp

text \<open>
  Claim C8, amended. With the cash computed in floating point as the source does:
  for every account state with positive holdings, every quantity \<open>q > 0\<close> and every
  priced symbol whose cost does not exceed the cash, buying \<open>q\<close> shares and then
  selling \<open>q\<close> shares of the same symbol at the same price both return, and the cash
  ends at the rounded sum of the rounded difference and the cost. That is exactly
  the cash before the buy whenever the subtraction of the cost is exact (needs no
  rounding), and it need not be otherwise. If the symbol had no entry before the
  buy, the holdings are again what they were, without an entry for it.
\<close>

theorem buy_then_sell_round_trip:
  "(0 < q \<and> get_share_price_w s = Inr p \<and> float_of_int q = Inr qf
      \<and> float_mul p qf \<le> cash_balance sw \<and> cash_balance sw < 2 ^ 1023
      \<and> holdings_positive (holdings_w sw) \<longrightarrow>
      fst (buy_shares_w_float t1 s q sw) = Returned
    \<and> fst (sell_shares_w_float t2 s q (snd (buy_shares_w_float t1 s q sw))) = Returned
    \<and> cash_balance (snd (sell_shares_w_float t2 s q (snd (buy_shares_w_float t1 s q sw))))
        = float_add (float_sub (cash_balance sw) (float_mul p qf)) (float_mul p qf)
    \<and> (float_sub (cash_balance sw) (float_mul p qf) = cash_balance sw - float_mul p qf
         \<and> fl (cash_balance sw) = cash_balance sw \<longrightarrow>
         cash_balance (snd (sell_shares_w_float t2 s q (snd (buy_shares_w_float t1 s q sw))))
           = cash_balance sw)
    \<and> (map_of (holdings_w sw) (upper s) = None \<longrightarrow>
         holdings_w (snd (sell_shares_w_float t2 s q (snd (buy_shares_w_float t1 s q sw))))
           = holdings_w sw
       \<and> map_of (holdings_w (snd (sell_shares_w_float t2 s q
            (snd (buy_shares_w_float t1 s q sw))))) (upper s) = None))
   \<and> (0 < q \<and> float_of_int q = Inr qf
      \<and> float_mul (get_share_price_c s) qf \<le> balance sc \<and> balance sc < 2 ^ 1023
      \<and> holdings_positive (holdings_c sc) \<longrightarrow>
      fst (buy_shares_c_float t1 s q sc) = Returned
    \<and> fst (sell_shares_c_float t2 s q (snd (buy_shares_c_float t1 s q sc))) = Returned
    \<and> balance (snd (sell_shares_c_float t2 s q (snd (buy_shares_c_float t1 s q sc))))
        = float_add (float_sub (balance sc) (float_mul (get_share_price_c s) qf))
            (float_mul (get_share_price_c s) qf)
    \<and> (float_sub (balance sc) (float_mul (get_share_price_c s) qf)
           = balance sc - float_mul (get_share_price_c s) qf
         \<and> fl (balance sc) = balance sc \<longrightarrow>
         balance (snd (sell_shares_c_float t2 s q (snd (buy_shares_c_float t1 s q sc))))
           = balance sc)
    \<and> (map_of (holdings_c sc) s = None \<longrightarrow>
         holdings_c (snd (sell_shares_c_float t2 s q (snd (buy_shares_c_float t1 s q sc))))
           = holdings_c sc
       \<and> map_of (holdings_c (snd (sell_shares_c_float t2 s q
            (snd (buy_shares_c_float t1 s q sc))))) s = None))"
proof -
  have w: "0 < q \<and> get_share_price_w s = Inr p \<and> float_of_int q = Inr qf
      \<and> float_mul p qf \<le> cash_balance sw \<and> holdings_positive (holdings_w sw) \<longrightarrow>
      fst (buy_shares_w_float t1 s q sw) = Returned
    \<and> fst (sell_shares_w_float t2 s q (snd (buy_shares_w_float t1 s q sw))) = Returned
    \<and> cash_balance (snd (sell_shares_w_float t2 s q (snd (buy_shares_w_float t1 s q sw))))
        = float_add (float_sub (cash_balance sw) (float_mul p qf)) (float_mul p qf)
    \<and> (map_of (holdings_w sw) (upper s) = None \<longrightarrow>
         holdings_w (snd (sell_shares_w_float t2 s q (snd (buy_shares_w_float t1 s q sw))))
           = holdings_w sw)"
    using holdings_positive_held [of "holdings_w sw" "upper s"]
    by (auto simp: buy_shares_w_float_def sell_shares_w_float_def Let_def
        get_share_price_w_upper AList.update_conv' delete_absent AList.delete_update_same
        held_def split: option.splits)
  have c: "0 < q \<and> float_of_int q = Inr qf
      \<and> float_mul (get_share_price_c s) qf \<le> balance sc
      \<and> holdings_positive (holdings_c sc) \<longrightarrow>
      fst (buy_shares_c_float t1 s q sc) = Returned
    \<and> fst (sell_shares_c_float t2 s q (snd (buy_shares_c_float t1 s q sc))) = Returned
    \<and> balance (snd (sell_shares_c_float t2 s q (snd (buy_shares_c_float t1 s q sc))))
        = float_add (float_sub (balance sc) (float_mul (get_share_price_c s) qf))
            (float_mul (get_share_price_c s) qf)
    \<and> (map_of (holdings_c sc) s = None \<longrightarrow>
         holdings_c (snd (sell_shares_c_float t2 s q (snd (buy_shares_c_float t1 s q sc))))
           = holdings_c sc)"
    using holdings_positive_held [of "holdings_c sc" s]
    by (auto simp: buy_shares_c_float_def sell_shares_c_float_def Let_def
        record_transaction_def AList.update_conv' delete_absent AList.delete_update_same
        held_def split: option.splits)
  have e: "y = x - z \<Longrightarrow> fl x = x \<Longrightarrow> float_add y z = x" for x y z :: rat
    by (simp add: float_add_def)
  from w c e [of "float_sub (cash_balance sw) (float_mul p qf)" "cash_balance sw" "float_mul p qf"]
    e [of "float_sub (balance sc) (float_mul (get_share_price_c s) qf)" "balance sc"
      "float_mul (get_share_price_c s) qf"]
  show ?thesis by metis
qed

theorem buy_then_sell_round_trip_witness:
  "(0::int) < 3
   \<and> get_share_price_w ''aapl'' = Inr 150
   \<and> float_of_int 3 = Inr 3
   \<and> float_mul 150 3 \<le> cash_balance (Account_w ''a'' 1000)
   \<and> cash_balance (Account_w ''a'' 1000) < 2 ^ 1023
   \<and> holdings_positive (holdings_w (Account_w ''a'' 1000))
   \<and> float_sub (cash_balance (Account_w ''a'' 1000)) (float_mul 150 3)
       = cash_balance (Account_w ''a'' 1000) - float_mul 150 3
   \<and> fl (cash_balance (Account_w ''a'' 1000)) = cash_balance (Account_w ''a'' 1000)
   \<and> map_of (holdings_w (Account_w ''a'' 1000)) (upper ''aapl'') = None
   \<and> fst (buy_shares_w_float 1 ''aapl'' 3 (Account_w ''a'' 1000)) = Returned
   \<and> fst (sell_shares_w_float 2 ''aapl'' 3
        (snd (buy_shares_w_float 1 ''aapl'' 3 (Account_w ''a'' 1000)))) = Returned
   \<and> cash_balance (snd (sell_shares_w_float 2 ''aapl'' 3
        (snd (buy_shares_w_float 1 ''aapl'' 3 (Account_w ''a'' 1000)))))
       = cash_balance (Account_w ''a'' 1000)
   \<and> holdings_w (snd (sell_shares_w_float 2 ''aapl'' 3
        (snd (buy_shares_w_float 1 ''aapl'' 3 (Account_w ''a'' 1000)))))
       = holdings_w (Account_w ''a'' 1000)
   \<and> float_mul (get_share_price_c ''AAPL'') 3 \<le> balance (snd (deposit_c 0 1000 (Account_c ''a'')))
   \<and> balance (snd (deposit_c 0 1000 (Account_c ''a''))) < 2 ^ 1023
   \<and> holdings_positive (holdings_c (snd (deposit_c 0 1000 (Account_c ''a''))))
   \<and> float_sub (balance (snd (deposit_c 0 1000 (Account_c ''a''))))
         (float_mul (get_share_price_c ''AAPL'') 3)
       = balance (snd (deposit_c 0 1000 (Account_c ''a'')))
           - float_mul (get_share_price_c ''AAPL'') 3
   \<and> fl (balance (snd (deposit_c 0 1000 (Account_c ''a''))))
       = balance (snd (deposit_c 0 1000 (Account_c ''a'')))
   \<and> map_of (holdings_c (snd (deposit_c 0 1000 (Account_c ''a'')))) ''AAPL'' = None
   \<and> fst (buy_shares_c_float 1 ''AAPL'' 3 (snd (deposit_c 0 1000 (Account_c ''a'')))) = Returned
   \<and> fst (sell_shares_c_float 2 ''AAPL'' 3
        (snd (buy_shares_c_float 1 ''AAPL'' 3 (snd (deposit_c 0 1000 (Account_c ''a''))))))
       = Returned
   \<and> balance (snd (sell_shares_c_float 2 ''AAPL'' 3
        (snd (buy_shares_c_float 1 ''AAPL'' 3 (snd (deposit_c 0 1000 (Account_c ''a'')))))))
       = balance (snd (deposit_c 0 1000 (Account_c ''a'')))
   \<and> holdings_c (snd (sell_shares_c_float 2 ''AAPL'' 3
        (snd (buy_shares_c_float 1 ''AAPL'' 3 (snd (deposit_c 0 1000 (Account_c ''a'')))))))
       = holdings_c (snd (deposit_c 0 1000 (Account_c ''a'')))"
proof -
  have q: "(0::int) < 3"
    by simp
  have a: "get_share_price_w ''aapl'' = Inr 150"
    "float_of_int 3 = Inr 3"
    "float_mul 150 3 \<le> cash_balance (Account_w ''a'' 1000)"
    "holdings_positive (holdings_w (Account_w ''a'' 1000))"
    "float_sub (cash_balance (Account_w ''a'' 1000)) (float_mul 150 3)
       = cash_balance (Account_w ''a'' 1000) - float_mul 150 3"
    "fl (cash_balance (Account_w ''a'' 1000)) = cash_balance (Account_w ''a'' 1000)"
    "map_of (holdings_w (Account_w ''a'' 1000)) (upper ''aapl'') = None"
    by code_simp+
  have a': "cash_balance (Account_w ''a'' 1000) < 2 ^ 1023"
    by (simp add: Account_w_def)
  have b: "float_mul (get_share_price_c ''AAPL'') 3
       \<le> balance (snd (deposit_c 0 1000 (Account_c ''a'')))"
    "holdings_positive (holdings_c (snd (deposit_c 0 1000 (Account_c ''a''))))"
    "float_sub (balance (snd (deposit_c 0 1000 (Account_c ''a''))))
         (float_mul (get_share_price_c ''AAPL'') 3)
       = balance (snd (deposit_c 0 1000 (Account_c ''a'')))
           - float_mul (get_share_price_c ''AAPL'') 3"
    "fl (balance (snd (deposit_c 0 1000 (Account_c ''a''))))
       = balance (snd (deposit_c 0 1000 (Account_c ''a'')))"
    "map_of (holdings_c (snd (deposit_c 0 1000 (Account_c ''a'')))) ''AAPL'' = None"
    by code_simp+
  have b': "balance (snd (deposit_c 0 1000 (Account_c ''a''))) < 2 ^ 1023"
    by (simp add: Account_c_def deposit_c_def record_transaction_def Let_def)
  note t1 = buy_then_sell_round_trip [where q = 3 and s = "''aapl''" and p = 150 and qf = 3
      and sw = "Account_w ''a'' 1000" and ?t1.0 = 1 and ?t2.0 = 2, THEN conjunct1]
  note t2 = buy_then_sell_round_trip [where q = 3 and s = "''AAPL''" and qf = 3
      and sc = "snd (deposit_c 0 1000 (Account_c ''a''))" and ?t1.0 = 1 and ?t2.0 = 2,
      THEN conjunct2]
  from q a a' t1 have w: "fst (buy_shares_w_float 1 ''aapl'' 3 (Account_w ''a'' 1000)) = Returned
   \<and> fst (sell_shares_w_float 2 ''aapl'' 3
        (snd (buy_shares_w_float 1 ''aapl'' 3 (Account_w ''a'' 1000)))) = Returned
   \<and> cash_balance (snd (sell_shares_w_float 2 ''aapl'' 3
        (snd (buy_shares_w_float 1 ''aapl'' 3 (Account_w ''a'' 1000)))))
       = cash_balance (Account_w ''a'' 1000)
   \<and> holdings_w (snd (sell_shares_w_float 2 ''aapl'' 3
        (snd (buy_shares_w_float 1 ''aapl'' 3 (Account_w ''a'' 1000)))))
       = holdings_w (Account_w ''a'' 1000)"
    by blast
  from q a(2) b b' t2 have c: "fst (buy_shares_c_float 1 ''AAPL'' 3 (snd (deposit_c 0 1000 (Account_c ''a'')))) = Returned
   \<and> fst (sell_shares_c_float 2 ''AAPL'' 3
        (snd (buy_shares_c_float 1 ''AAPL'' 3 (snd (deposit_c 0 1000 (Account_c ''a''))))))
       = Returned
   \<and> balance (snd (sell_shares_c_float 2 ''AAPL'' 3
        (snd (buy_shares_c_float 1 ''AAPL'' 3 (snd (deposit_c 0 1000 (Account_c ''a'')))))))
       = balance (snd (deposit_c 0 1000 (Account_c ''a'')))
   \<and> holdings_c (snd (sell_shares_c_float 2 ''AAPL'' 3
        (snd (buy_shares_c_float 1 ''AAPL'' 3 (snd (deposit_c 0 1000 (Account_c ''a'')))))))
       = holdings_c (snd (deposit_c 0 1000 (Account_c ''a'')))"
    by blast
  from q a a' b b' w c show ?thesis
    by blast
qed

theorem round_trip_rounding_counterexample:
  "fl 100000000000000016 = 100000000000000016
   \<and> fst (buy_shares_w_float 1 ''GOOGL'' 2 (Account_w ''a'' 100000000000000016)) = Returned
   \<and> cash_balance (snd (buy_shares_w_float 1 ''GOOGL'' 2 (Account_w ''a'' 100000000000000016)))
       = 99999999999995008
   \<and> fst (sell_shares_w_float 2 ''GOOGL'' 2
        (snd (buy_shares_w_float 1 ''GOOGL'' 2 (Account_w ''a'' 100000000000000016)))) = Returned
   \<and> cash_balance (snd (sell_shares_w_float 2 ''GOOGL'' 2
        (snd (buy_shares_w_float 1 ''GOOGL'' 2 (Account_w ''a'' 100000000000000016)))))
       = 100000000000000000
   \<and> fl 10000000000000002 = 10000000000000002
   \<and> fst (buy_shares_c_float 1 ''AAPL'' 2
        (snd (deposit_c 0 10000000000000002 (Account_c ''a'')))) = Returned
   \<and> fst (sell_shares_c_float 2 ''AAPL'' 2 (snd (buy_shares_c_float 1 ''AAPL'' 2
        (snd (deposit_c 0 10000000000000002 (Account_c ''a'')))))) = Returned
   \<and> balance (snd (sell_shares_c_float 2 ''AAPL'' 2 (snd (buy_shares_c_float 1 ''AAPL'' 2
        (snd (deposit_c 0 10000000000000002 (Account_c ''a'')))))))
       = 10000000000000000"
  by code_simp

text \<open>
  Claim C9, amended. The constructor of accounts\_working.py does not go through
  deposit: it assigns the amount to the cash and to the baseline \<open>initial_deposit\<close>
  and leaves the transaction history empty, so right after creation there is no
  deposit record, whereas a deposit of the same positive amount into an empty
  account appends one record and does not touch the baseline. The constructor of
  3\_crew accounts.py takes no amount: the new account has no cash, no transactions
  and a deposit total of zero, and a first deposit of a positive amount then gives
  exactly one \<open>DEPOSIT\<close> record for it and a deposit total equal to it.
\<close>

theorem creation_and_first_deposit:
  "transaction_history (Account_w name x) = []
   \<and> cash_balance (Account_w name x) = x
   \<and> initial_deposit (Account_w name x) = x
   \<and> balance (Account_c ident) = 0
   \<and> transactions (Account_c ident) = []
   \<and> initial_deposit_total (Account_c ident) = 0
   \<and> (0 < x \<longrightarrow>
        length (transaction_history (snd (deposit_w now x (Account_w name 0)))) = 1
      \<and> initial_deposit (snd (deposit_w now x (Account_w name 0))) = 0
      \<and> transactions (snd (deposit_c now x (Account_c ident)))
          = [\<lparr>tc_timestamp = now, tc_type = ''DEPOSIT'', tc_symbol = None, tc_quantity = None,
               tc_price = None, tc_amount = x\<rparr>]
      \<and> initial_deposit_total (snd (deposit_c now x (Account_c ident))) = x
      \<and> balance (snd (deposit_c now x (Account_c ident))) = x)"
  by (simp add: Account_w_def Account_c_def deposit_w_def deposit_c_def record_transaction_def
      Let_def)

theorem creation_and_first_deposit_witness:
  "(0::rat) < 100
   \<and> transaction_history (Account_w ''a'' 100) = []
   \<and> length (transaction_history (snd (deposit_w 1 100 (Account_w ''a'' 0)))) = 1
   \<and> initial_deposit (snd (deposit_w 1 100 (Account_w ''a'' 0))) = 0
   \<and> initial_deposit_total (snd (deposit_c 1 100 (Account_c ''a''))) = 100"
proof -
  have a: "(0::rat) < 100"
    by simp
  from a creation_and_first_deposit [where x = 100 and now = 1 and name = "''a''"
      and ident = "''a''"]
  show ?thesis by blast
qed

theorem creation_without_record_counterexample:
  "(0::rat) < 100
   \<and> transaction_history (Account_w ''Demo Trader'' 100) = []
   \<and> length (transaction_history (Account_w ''Demo Trader'' 100)) \<noteq> 1"
  by code_simp

text \<open>
  Claim C10. The constructor of accounts\_working.py checks nothing: for every
  negative amount it yields an account whose cash is that negative amount and whose
  transaction history is empty, and that account breaks the invariant; the invariant
  holds for a new account exactly when the creation amount is not negative.
\<close>

theorem creation_unvalidated:
  "x < 0 \<Longrightarrow>
     cash_balance (Account_w name x) = x
   \<and> cash_balance (Account_w name x) < 0
   \<and> transaction_history (Account_w name x) = []
   \<and> holdings_w (Account_w name x) = []
   \<and> \<not> invariant_w (Account_w name x)
   \<and> (\<forall>y. invariant_w (Account_w name y) = (0 \<le> y))"
  by (simp add: Account_w_def invariant_w_def holdings_positive_def)

theorem creation_unvalidated_witness:
  "(- 10 :: rat) < 0
   \<and> cash_balance (Account_w ''Bad Investor'' (- 10)) = - 10
   \<and> transaction_history (Account_w ''Bad Investor'' (- 10)) = []
   \<and> \<not> invariant_w (Account_w ''Bad Investor'' (- 10))"
proof -
  have a: "(- 10 :: rat) < 0"
    by simp
  from creation_unvalidated [OF a, where name = "''Bad Investor''"]
  show ?thesis using a by blast
qed

end
